theory Spec2Isabelle
  imports Main "HOL-Library.AList"
begin

section \<open>ADES export of observations (thor/utils/ades.py)\<close>

text \<open>
  The module has two functions. \<open>writeADESHeader\<close> is pure: it builds the list of header
  lines of an ADES PSV file. \<open>writeToADES\<close> calls it, assembles the output columns from a
  table of observations, and writes header, column-name line and data rows to a file.

  Exceptions are values: a function that can raise returns \<open>error + 'a\<close>, with \<open>Inl\<close>
  the exception. The file system is an explicit state, a map from paths to contents.
\<close>

subsection \<open>Python values and their formatting\<close>

text \<open>
  The exceptions of the module: the two \<open>ValueError\<close>s it raises itself, the \<open>KeyError\<close>
  of a column lookup, and whatever the time conversion of the library raises.
\<close>

datatype error = ValueError string | KeyError string | TypeError string

text \<open>
  The values an element of \<open>observers\<close> or \<open>measurers\<close> can be. The docstring asks for
  strings; Python checks nothing, so \<open>None\<close>, booleans and integers are kept too.
\<close>

datatype pyatom = PyNone | PyBool bool | PyInt int | PyStr string

text \<open>
  What the caller passes as \<open>observers\<close> or \<open>measurers\<close>: a list, a tuple, or a single
  value that is no sequence at all (a string such as \<open>"J. Smith"\<close>, \<open>None\<close>).
\<close>

datatype pyarg = ArgList "pyatom list" | ArgTuple "pyatom list" | ArgAtom pyatom

function str_nat :: "nat \<Rightarrow> string" where
  "str_nat n =
     (if n < 10 then [''0123456789'' ! n]
      else str_nat (n div 10) @ [''0123456789'' ! (n mod 10)])"
  by pat_completeness auto
termination
  by (relation "measure (\<lambda>n. n)") auto

definition str_int :: "int \<Rightarrow> string" where
  "str_int i = (if i < 0 then ''-'' @ str_nat (nat (- i)) else str_nat (nat i))"

text \<open>\<open>"{}".format(x)\<close>: the value's \<open>str\<close>.\<close>

fun py_format :: "pyatom \<Rightarrow> string" where
  "py_format PyNone = ''None''"
| "py_format (PyBool b) = (if b then ''True'' else ''False'')"
| "py_format (PyInt i) = str_int i"
| "py_format (PyStr s) = s"

text \<open>\<open>sep.join(xs)\<close>\<close>

fun join :: "string \<Rightarrow> string list \<Rightarrow> string" where
  "join sep [] = []"
| "join sep [x] = x"
| "join sep (x # y # ys) = x @ sep @ join sep (y # ys)"

subsection \<open>The header builder\<close>

text \<open>
  The loops \<open>for name in observers: header += ["! name {}".format(name)]\<close> and the same
  for measurers.
\<close>

primrec add_names :: "string list \<Rightarrow> pyatom list \<Rightarrow> string list" where
  "add_names header [] = header"
| "add_names header (name # names) =
     add_names (header @ [''! name '' @ py_format name]) names"

text \<open>
  \<open>writeADESHeader\<close>, statement by statement. The scalar arguments are strings, as the
  docstring types them; the three optional ones and \<open>comment\<close> default to \<open>None\<close>.
  \<open>type(observers) is not list\<close> holds for everything but \<open>ArgList\<close>.
\<close>

definition writeADESHeader ::
  "string \<Rightarrow> string \<Rightarrow> string \<Rightarrow> string \<Rightarrow> string \<Rightarrow> pyarg \<Rightarrow> pyarg \<Rightarrow>
   string option \<Rightarrow> string option \<Rightarrow> string option \<Rightarrow> string option \<Rightarrow>
   error + string list" where
  "writeADESHeader observatory_code submitter telescope_design telescope_aperture
     telescope_detector observers measurers observatory_name submitter_institution
     telescope_name comment =
    (let header = [''# version=2017''];
         header = header @ [''# observatory''];
         header = header @ [''! mpcCode '' @ observatory_code];
         header = (case observatory_name of None \<Rightarrow> header
                   | Some n \<Rightarrow> header @ [''! name '' @ n]);
         header = header @ [''# submitter''];
         header = header @ [''! name '' @ submitter];
         header = (case submitter_institution of None \<Rightarrow> header
                   | Some i \<Rightarrow> header @ [''! institution '' @ i]);
         header = header @ [''# telescope''];
         header = (case telescope_name of None \<Rightarrow> header
                   | Some n \<Rightarrow> header @ [''! name '' @ n]);
         header = header @ [''! aperture 8.4''];
         header = header @ [''! design '' @ telescope_design];
         header = header @ [''! detector '' @ ''CCD''];
         header = header @ [''# observers'']
     in case observers of
          ArgList obs_names \<Rightarrow>
            (let header = add_names header obs_names;
                 header = header @ [''# measurers'']
             in case measurers of
                  ArgList meas_names \<Rightarrow>
                    (let header = add_names header meas_names;
                         header = (case comment of None \<Rightarrow> header
                                   | Some c \<Rightarrow> header @ [''# comment''] @ [''! line '' @ c])
                     in Inr (map (\<lambda>i. i @ ''\<newline>'') header))
                | ArgTuple _ \<Rightarrow> Inl (ValueError ''measurers should be a list of strings.'')
                | ArgAtom _ \<Rightarrow> Inl (ValueError ''measurers should be a list of strings.''))
        | ArgTuple _ \<Rightarrow> Inl (ValueError ''observers should be a list of strings.'')
        | ArgAtom _ \<Rightarrow> Inl (ValueError ''observers should be a list of strings.''))"

subsection \<open>Tables, the file system and the library\<close>

text \<open>
  A table of observations is its columns in order, each a name and the values of its rows.
  Column names are taken to be distinct (with a repeated label, \<open>observations[k]\<close> is a
  two-dimensional selection, which is not modelled). The exporter copies cell values and
  never inspects them, so the type of cells is a parameter.

  The assembled output has one column the exporter computes, the strings of \<open>obsTime\<close>,
  beside the copied ones.
\<close>

type_synonym 'c table = "(string \<times> 'c list) list"

datatype 'c column = Values "'c list" | Strings "string list"

type_synonym 'c frame = "(string \<times> 'c column) list"

type_synonym filesystem = "string \<rightharpoonup> string"

text \<open>\<open>open(path, "w")\<close> creates or truncates the file; writing appends to its content.\<close>

definition open_w :: "filesystem \<Rightarrow> string \<Rightarrow> filesystem" where
  "open_w fs path = fs(path \<mapsto> [])"

definition file_append :: "filesystem \<Rightarrow> string \<Rightarrow> string \<Rightarrow> filesystem" where
  "file_append fs path text =
     fs(path \<mapsto> (case fs path of None \<Rightarrow> text | Some old \<Rightarrow> old @ text))"

text \<open>
  Two library calls are parameters of the model, since their code is not part of the module:
  \<^item> \<open>isot\<close>: \<open>Time(values, format="mjd", scale=mjd_scale, precision=seconds_precision).utc.isot\<close>
    of astropy, which may raise;
  \<^item> \<open>to_csv\<close>: the text that
    \<open>ades.replace(np.nan, " ", regex=True).to_csv(sep="|", header=False, index=False, float_format='%.16f')\<close>
    of pandas produces for the assembled frame.
\<close>

type_synonym 'c time_conversion = "'c list \<Rightarrow> string \<Rightarrow> int \<Rightarrow> error + string list"

type_synonym 'c csv_writer = "'c frame \<Rightarrow> string"

definition and_then :: "error + 'a \<Rightarrow> ('a \<Rightarrow> error + 'b) \<Rightarrow> error + 'b" where
  "and_then r f = (case r of Inl e \<Rightarrow> Inl e | Inr x \<Rightarrow> f x)"

text \<open>
  \<open>if k in observations.columns.values: ades[k] = observations[k].values\<close>.
  A dict keeps insertion order and assigning to a key it has replaces the value in
  place, which is \<open>AList.update\<close>.
\<close>

definition copy_if_present :: "'c table \<Rightarrow> string \<Rightarrow> 'c frame \<Rightarrow> 'c frame" where
  "copy_if_present observations k ades =
     (case map_of observations k of
        None \<Rightarrow> ades
      | Some v \<Rightarrow> AList.update k (Values v) ades)"

text \<open>\<open>ades[k] = observations[k].values\<close> without a test: a missing column is a \<open>KeyError\<close>.\<close>

definition copy_required :: "'c table \<Rightarrow> string \<Rightarrow> 'c frame \<Rightarrow> error + 'c frame" where
  "copy_required observations k ades =
     (case map_of observations k of
        None \<Rightarrow> Inl (KeyError k)
      | Some v \<Rightarrow> Inr (AList.update k (Values v) ades))"

subsection \<open>The table exporter\<close>

text \<open>
  The part of \<open>writeToADES\<close> that fills the dict \<open>ades\<close> (from \<open>ades = {}\<close> to the last
  optional column), in the order of the statements.
\<close>

definition assemble_ades ::
  "'c time_conversion \<Rightarrow> 'c table \<Rightarrow> string \<Rightarrow> int \<Rightarrow> error + 'c frame" where
  "assemble_ades isot observations mjd_scale seconds_precision =
    (let ades = [];
         id_present = False;
         (ades, id_present) =
           (case map_of observations ''permID'' of
              None \<Rightarrow> (ades, id_present)
            | Some v \<Rightarrow> (AList.update ''permID'' (Values v) ades, True));
         (ades, id_present) =
           (case map_of observations ''provID'' of
              None \<Rightarrow> (ades, id_present)
            | Some v \<Rightarrow> (AList.update ''provID'' (Values v) ades, True));
         (ades, id_present) =
           (case map_of observations ''trkSub'' of
              None \<Rightarrow> (ades, id_present)
            | Some v \<Rightarrow> (AList.update ''trkSub'' (Values v) ades, True))
     in if \<not> id_present then
          Inl (ValueError
            ''At least one of permID, provID, or trkSub should\<newline>be present in observations.'')
        else
          (case map_of observations ''mjd'' of
             None \<Rightarrow> Inl (KeyError ''mjd'')
           | Some mjd \<Rightarrow>
          and_then (isot mjd mjd_scale seconds_precision) (\<lambda>observation_times.
          let ades = AList.update ''obsTime''
                       (Strings (map (\<lambda>i. i @ ''Z'') observation_times)) ades in
          and_then (copy_required observations ''ra'' ades) (\<lambda>ades.
          and_then (copy_required observations ''dec'' ades) (\<lambda>ades.
          let ades = copy_if_present observations ''rmsRA'' ades;
              ades = copy_if_present observations ''rmsDec'' ades in
          and_then (copy_required observations ''mag'' ades) (\<lambda>ades.
          let ades = copy_if_present observations ''rmsMag'' ades in
          and_then (copy_required observations ''band'' ades) (\<lambda>ades.
          and_then (copy_required observations ''stn'' ades) (\<lambda>ades.
          and_then (copy_required observations ''mode'' ades) (\<lambda>ades.
          and_then (copy_required observations ''astCat'' ades) (\<lambda>ades.
          let ades = copy_if_present observations ''remarks'' ades in
          Inr ades))))))))))"

text \<open>
  \<open>writeToADES\<close>. The file system before the call is an argument; the result is what the
  call raised or returned, with the file system after it. The header is built first, with
  \<open>observatory_name\<close>, \<open>submitter_institution\<close> and \<open>telescope_name\<close> left at their default
  \<open>None\<close>. \<open>pd.DataFrame(ades)\<close> keeps the dict's columns in insertion order.
  Opening the file and writing to it are taken to succeed.
\<close>

definition writeToADES ::
  "'c time_conversion \<Rightarrow> 'c csv_writer \<Rightarrow> filesystem \<Rightarrow> 'c table \<Rightarrow> string \<Rightarrow> string \<Rightarrow> int \<Rightarrow>
   string \<Rightarrow> string \<Rightarrow> string \<Rightarrow> string \<Rightarrow> string \<Rightarrow> pyarg \<Rightarrow> pyarg \<Rightarrow> string option \<Rightarrow>
   (error + unit) \<times> filesystem" where
  "writeToADES isot to_csv fs observations file_out mjd_scale seconds_precision
     observatory_code submitter telescope_design telescope_aperture telescope_detector
     observers measurers comment =
    (case writeADESHeader observatory_code submitter telescope_design telescope_aperture
            telescope_detector observers measurers None None None comment of
       Inl e \<Rightarrow> (Inl e, fs)
     | Inr header \<Rightarrow>
         (case assemble_ades isot observations mjd_scale seconds_precision of
            Inl e \<Rightarrow> (Inl e, fs)
          | Inr ades \<Rightarrow>
              (let col_header = join ''|'' (map fst ades) @ ''\<newline>'';
                   fs = open_w fs file_out;
                   fs = file_append fs file_out (concat header);
                   fs = file_append fs file_out col_header;
                   fs = file_append fs file_out (to_csv ades)
               in (Inr (), fs))))"

subsection \<open>Columns of a table and copied columns\<close>

text \<open>\<open>observations.columns.values\<close>: the names of the columns, in order.\<close>

definition columns :: "'c table \<Rightarrow> string list" where
  "columns observations = map fst observations"


subsection \<open>Predicates on the arguments\<close>

text \<open>\<open>type(x) is list\<close>, the test of the code.\<close>

fun type_is_list :: "pyarg \<Rightarrow> bool" where
  "type_is_list (ArgList _) = True"
| "type_is_list (ArgTuple _) = False"
| "type_is_list (ArgAtom _) = False"

fun is_str :: "pyatom \<Rightarrow> bool" where
  "is_str (PyStr _) = True"
| "is_str _ = False"

text \<open>
  The words of the specification: the argument is a list-like ordered sequence of strings.
  A list or a tuple whose elements are all strings is one; a single value is not.
\<close>

fun spec_sequence_of_strings :: "pyarg \<Rightarrow> bool" where
  "spec_sequence_of_strings (ArgList xs) = list_all is_str xs"
| "spec_sequence_of_strings (ArgTuple xs) = list_all is_str xs"
| "spec_sequence_of_strings (ArgAtom _) = False"

subsection \<open>The column order as the specification words it\<close>

text \<open>
  Identification columns that are present, in the order permID, provID, trkSub; then
  obsTime, ra, dec, rmsRA if present, rmsDec if present, mag, rmsMag if present, band, stn,
  mode, astCat, remarks if present.
\<close>

definition spec_column_order :: "string list \<Rightarrow> string list" where
  "spec_column_order cols =
     filter (\<lambda>k. k \<in> set cols) [''permID'', ''provID'', ''trkSub''] @
     [''obsTime'', ''ra'', ''dec''] @
     filter (\<lambda>k. k \<in> set cols) [''rmsRA'', ''rmsDec''] @
     [''mag''] @
     filter (\<lambda>k. k \<in> set cols) [''rmsMag''] @
     [''band'', ''stn'', ''mode'', ''astCat''] @
     filter (\<lambda>k. k \<in> set cols) [''remarks'']"

subsection \<open>The lines of a text file\<close>

text \<open>
  A text read as lines: it is cut at every line feed and the line feeds are dropped; a last
  line without a line feed counts too.
\<close>

fun lines_of :: "string \<Rightarrow> string list" where
  "lines_of [] = []"
| "lines_of (c # cs) =
     (if c = CHR ''\<newline>'' then [] # lines_of cs
      else (case lines_of cs of [] \<Rightarrow> [[c]] | l # ls \<Rightarrow> (c # l) # ls))"

text \<open>A string without a line feed, which is written as a single line.\<close>

definition no_line_break :: "string \<Rightarrow> bool" where
  "no_line_break s \<longleftrightarrow> CHR ''\<newline>'' \<notin> set s"

section \<open>Properties of the header builder\<close>

lemma add_names_map:
  "add_names header names = header @ map (\<lambda>name. ''! name '' @ py_format name) names"
  by (induction names arbitrary: header) simp_all

text \<open>The header for list arguments, written out.\<close>

lemma writeADESHeader_lists:
  "writeADESHeader oc s td ta tdet (ArgList os) (ArgList ms) on si tn c =
   Inr (map (\<lambda>i. i @ ''\<newline>'')
     ([''# version=2017'', ''# observatory'', ''! mpcCode '' @ oc] @
      (case on of None \<Rightarrow> [] | Some n \<Rightarrow> [''! name '' @ n]) @
      [''# submitter'', ''! name '' @ s] @
      (case si of None \<Rightarrow> [] | Some i \<Rightarrow> [''! institution '' @ i]) @
      [''# telescope''] @
      (case tn of None \<Rightarrow> [] | Some n \<Rightarrow> [''! name '' @ n]) @
      [''! aperture 8.4'', ''! design '' @ td, ''! detector CCD'', ''# observers''] @
      map (\<lambda>name. ''! name '' @ py_format name) os @
      [''# measurers''] @
      map (\<lambda>name. ''! name '' @ py_format name) ms @
      (case c of None \<Rightarrow> [] | Some c \<Rightarrow> [''# comment'', ''! line '' @ c])))"
  by (simp add: writeADESHeader_def add_names_map split: option.splits)

lemma filter_map_none: "\<forall>x. \<not> P (f x) \<Longrightarrow> filter P (map f xs) = []"
  by (induction xs) auto

lemma count_list_map_none: "\<forall>x. f x \<noteq> l \<Longrightarrow> count_list (map f xs) l = 0"
  by (induction xs) auto

lemma writeADESHeader_observers_not_list:
  "\<not> type_is_list observers \<Longrightarrow>
   writeADESHeader oc s td ta tdet observers measurers on si tn c =
     Inl (ValueError ''observers should be a list of strings.'')"
  by (cases observers) (simp_all add: writeADESHeader_def)

lemma writeADESHeader_measurers_not_list:
  "type_is_list observers \<Longrightarrow> \<not> type_is_list measurers \<Longrightarrow>
   writeADESHeader oc s td ta tdet observers measurers on si tn c =
     Inl (ValueError ''measurers should be a list of strings.'')"
  by (cases observers; cases measurers) (simp_all add: writeADESHeader_def)

text \<open>
  C2. The claim: the aperture line carries the supplied \<open>telescope_aperture\<close>. The code
  appends the literal line \<open>! aperture 8.4\<close> and never reads the argument: called with
  the aperture \<open>1.8\<close>, the header has the line \<open>! aperture 8.4\<close>.
\<close>

theorem writeADESHeader_aperture_literal:
  "writeADESHeader ''I11'' ''D. iRAC'' ''Reflector'' ''1.8'' ''CCD''
     (ArgList [PyStr ''J. Smith'']) (ArgList [PyStr ''J. Smith'']) None None None None =
   Inr [''# version=2017\<newline>'', ''# observatory\<newline>'', ''! mpcCode I11\<newline>'',
        ''# submitter\<newline>'', ''! name D. iRAC\<newline>'', ''# telescope\<newline>'',
        ''! aperture 8.4\<newline>'', ''! design Reflector\<newline>'', ''! detector CCD\<newline>'',
        ''# observers\<newline>'', ''! name J. Smith\<newline>'',
        ''# measurers\<newline>'', ''! name J. Smith\<newline>'']"
  by (simp add: writeADESHeader_def)

text \<open>
  C3. The claim: the detector line carries the supplied \<open>telescope_detector\<close>. The code
  formats the literal \<open>"CCD"\<close> into the line and never reads the argument: called with the
  detector \<open>CMOS\<close>, the header has the line \<open>! detector CCD\<close>.
\<close>

theorem writeADESHeader_detector_literal:
  "writeADESHeader ''F51'' ''A. Jones'' ''Ritchey-Chretien'' ''8.4'' ''CMOS''
     (ArgList [PyStr ''A. Jones'']) (ArgList [PyStr ''B. Brown'']) None None None None =
   Inr [''# version=2017\<newline>'', ''# observatory\<newline>'', ''! mpcCode F51\<newline>'',
        ''# submitter\<newline>'', ''! name A. Jones\<newline>'', ''# telescope\<newline>'',
        ''! aperture 8.4\<newline>'', ''! design Ritchey-Chretien\<newline>'', ''! detector CCD\<newline>'',
        ''# observers\<newline>'', ''! name A. Jones\<newline>'',
        ''# measurers\<newline>'', ''! name B. Brown\<newline>'']"
  by (simp add: writeADESHeader_def)

text \<open>
  C4. For valid metadata (\<open>observers\<close> and \<open>measurers\<close> are lists) the header builder
  returns a list of lines that starts with the version line; the five section markers occur
  in it exactly once each and in the order observatory, submitter, telescope, observers,
  measurers (the lines of the header that are markers are exactly this list); the marker
  \<open># comment\<close> occurs once if a comment was supplied and not at all otherwise; and every
  line ends with a newline.
\<close>

theorem writeADESHeader_structure:
  "\<exists>header. writeADESHeader oc s td ta tdet (ArgList os) (ArgList ms) on si tn c = Inr header
     \<and> take 1 header = [''# version=2017\<newline>'']
     \<and> filter (\<lambda>l. l \<in> set [''# observatory\<newline>'', ''# submitter\<newline>'', ''# telescope\<newline>'',
                               ''# observers\<newline>'', ''# measurers\<newline>'']) header
         = [''# observatory\<newline>'', ''# submitter\<newline>'', ''# telescope\<newline>'',
            ''# observers\<newline>'', ''# measurers\<newline>'']
     \<and> count_list header ''# comment\<newline>'' = (if c = None then 0 else 1)
     \<and> (\<forall>l \<in> set header. l \<noteq> [] \<and> last l = CHR ''\<newline>'')"
  apply (simp only: writeADESHeader_lists)
  apply (rule exI, rule conjI, rule refl)
  apply (intro conjI)
  subgoal by simp
  subgoal by (simp add: filter_map_none comp_def split: option.splits)
  subgoal by (simp add: count_list_map_none comp_def split: option.splits)
  subgoal by (auto split: option.splits)
  done

theorem writeADESHeader_structure_witness:
  "\<exists>header. writeADESHeader ''I11'' ''D. iRAC'' ''Reflector'' ''8.4'' ''CCD''
       (ArgList [PyStr ''J. Smith'']) (ArgList [PyStr ''A. Jones'', PyStr ''B. Brown''])
       None None None (Some ''first light'') = Inr header
     \<and> header = [''# version=2017\<newline>'', ''# observatory\<newline>'', ''! mpcCode I11\<newline>'',
        ''# submitter\<newline>'', ''! name D. iRAC\<newline>'', ''# telescope\<newline>'',
        ''! aperture 8.4\<newline>'', ''! design Reflector\<newline>'', ''! detector CCD\<newline>'',
        ''# observers\<newline>'', ''! name J. Smith\<newline>'',
        ''# measurers\<newline>'', ''! name A. Jones\<newline>'', ''! name B. Brown\<newline>'',
        ''# comment\<newline>'', ''! line first light\<newline>'']
     \<and> count_list header ''# comment\<newline>'' = 1
     \<and> (\<forall>l \<in> set header. l \<noteq> [] \<and> last l = CHR ''\<newline>'')"
  using writeADESHeader_structure [of "''I11''" "''D. iRAC''" "''Reflector''" "''8.4''" "''CCD''"
      "[PyStr ''J. Smith'']" "[PyStr ''A. Jones'', PyStr ''B. Brown'']" None None None
      "Some ''first light''"]
  by (simp add: writeADESHeader_def)

text \<open>
  C5, as stated: the header builder raises if and only if \<open>observers\<close> or \<open>measurers\<close> is
  not a list-like ordered sequence of strings. It fails on a list whose element is not a
  string: \<open>observers = [7]\<close> is accepted and gives the line \<open>! name 7\<close>.
\<close>

theorem writeADESHeader_list_of_ints_accepted:
  "writeADESHeader ''I11'' ''D. iRAC'' ''Reflector'' ''8.4'' ''CCD''
     (ArgList [PyInt 7]) (ArgList [PyStr ''J. Smith'']) None None None None =
   Inr [''# version=2017\<newline>'', ''# observatory\<newline>'', ''! mpcCode I11\<newline>'',
        ''# submitter\<newline>'', ''! name D. iRAC\<newline>'', ''# telescope\<newline>'',
        ''! aperture 8.4\<newline>'', ''! design Reflector\<newline>'', ''! detector CCD\<newline>'',
        ''# observers\<newline>'', ''! name 7\<newline>'',
        ''# measurers\<newline>'', ''! name J. Smith\<newline>'']
   \<and> \<not> spec_sequence_of_strings (ArgList [PyInt 7])"
  by (simp add: writeADESHeader_def str_int_def)

text \<open>
  C5, amended: the header builder raises \<open>ValueError\<close> if and only if \<open>observers\<close> is not
  a \<open>list\<close> object or \<open>measurers\<close> is not a \<open>list\<close> object (the test is on the type of the
  argument alone: a tuple raises, the elements of a list are not inspected). \<open>observers\<close>
  is tested first. The call that raises returns no header line.
\<close>

theorem writeADESHeader_raises_iff:
  "(writeADESHeader oc s td ta tdet observers measurers on si tn c =
      Inl (ValueError ''observers should be a list of strings.'')
    \<longleftrightarrow> \<not> type_is_list observers) \<and>
   (writeADESHeader oc s td ta tdet observers measurers on si tn c =
      Inl (ValueError ''measurers should be a list of strings.'')
    \<longleftrightarrow> type_is_list observers \<and> \<not> type_is_list measurers) \<and>
   ((\<exists>e. writeADESHeader oc s td ta tdet observers measurers on si tn c = Inl e)
    \<longleftrightarrow> \<not> type_is_list observers \<or> \<not> type_is_list measurers)"
proof (cases "type_is_list observers")
  case False
  then show ?thesis by (simp add: writeADESHeader_observers_not_list)
next
  case obs: True
  show ?thesis
  proof (cases "type_is_list measurers")
    case False
    with obs show ?thesis by (simp add: writeADESHeader_measurers_not_list)
  next
    case True
    with obs obtain os ms where "observers = ArgList os" "measurers = ArgList ms"
      by (cases observers; cases measurers) simp_all
    then show ?thesis by (simp add: writeADESHeader_lists)
  qed
qed

theorem writeADESHeader_raises_iff_witness:
  "writeADESHeader ''I11'' ''D. iRAC'' ''Reflector'' ''8.4'' ''CCD''
     (ArgAtom (PyStr ''J. Smith'')) (ArgList [PyStr ''J. Smith'']) None None None None =
     Inl (ValueError ''observers should be a list of strings.'')
   \<and> \<not> type_is_list (ArgAtom (PyStr ''J. Smith''))
   \<and> writeADESHeader ''I11'' ''D. iRAC'' ''Reflector'' ''8.4'' ''CCD''
     (ArgList [PyStr ''J. Smith'']) (ArgTuple [PyStr ''J. Smith'']) None None None None =
     Inl (ValueError ''measurers should be a list of strings.'')"
  using writeADESHeader_raises_iff [of "''I11''" "''D. iRAC''" "''Reflector''" "''8.4''" "''CCD''"
      "ArgAtom (PyStr ''J. Smith'')" "ArgList [PyStr ''J. Smith'']" None None None None]
    writeADESHeader_raises_iff [of "''I11''" "''D. iRAC''" "''Reflector''" "''8.4''" "''CCD''"
      "ArgList [PyStr ''J. Smith'']" "ArgTuple [PyStr ''J. Smith'']" None None None None]
  by simp

text \<open>
  C9. An empty list of observers or of measurers raises nothing: the marker line is there
  and no name line follows it. With both lists empty the header ends in the detector line,
  \<open># observers\<close>, \<open># measurers\<close> and the comment section if there is a comment; with
  no observers \<open># measurers\<close> comes right after \<open># observers\<close>; with no
  measurers nothing but the comment section comes after \<open># measurers\<close>.
\<close>

theorem writeADESHeader_empty_lists:
  "(\<exists>pre. writeADESHeader oc s td ta tdet (ArgList []) (ArgList []) on si tn c =
      Inr (pre @ [''! detector CCD\<newline>'', ''# observers\<newline>'', ''# measurers\<newline>''] @
           (case c of None \<Rightarrow> []
            | Some c \<Rightarrow> [''# comment\<newline>'', ''! line '' @ c @ ''\<newline>'']))) \<and>
   (\<exists>pre post. writeADESHeader oc s td ta tdet (ArgList []) (ArgList ms) on si tn c =
      Inr (pre @ [''! detector CCD\<newline>'', ''# observers\<newline>'', ''# measurers\<newline>''] @ post)) \<and>
   (\<exists>pre. writeADESHeader oc s td ta tdet (ArgList os) (ArgList []) on si tn c =
      Inr (pre @ [''# measurers\<newline>''] @
           (case c of None \<Rightarrow> []
            | Some c \<Rightarrow> [''# comment\<newline>'', ''! line '' @ c @ ''\<newline>''])))"
proof (intro conjI)
  let ?nl = "\<lambda>i. i @ ''\<newline>''"
  let ?pre = "map ?nl
     ([''# version=2017'', ''# observatory'', ''! mpcCode '' @ oc] @
      (case on of None \<Rightarrow> [] | Some n \<Rightarrow> [''! name '' @ n]) @
      [''# submitter'', ''! name '' @ s] @
      (case si of None \<Rightarrow> [] | Some i \<Rightarrow> [''! institution '' @ i]) @
      [''# telescope''] @
      (case tn of None \<Rightarrow> [] | Some n \<Rightarrow> [''! name '' @ n]) @
      [''! aperture 8.4'', ''! design '' @ td])"
  let ?names = "\<lambda>xs. map (\<lambda>name. ''! name '' @ py_format name @ ''\<newline>'') xs"
  let ?com = "case c of None \<Rightarrow> [] | Some c \<Rightarrow> [''# comment\<newline>'', ''! line '' @ c @ ''\<newline>'']"
  have "writeADESHeader oc s td ta tdet (ArgList []) (ArgList []) on si tn c =
      Inr (?pre @ [''! detector CCD\<newline>'', ''# observers\<newline>'', ''# measurers\<newline>''] @ ?com)"
    by (simp add: writeADESHeader_lists split: option.splits)
  then show "\<exists>pre. writeADESHeader oc s td ta tdet (ArgList []) (ArgList []) on si tn c =
      Inr (pre @ [''! detector CCD\<newline>'', ''# observers\<newline>'', ''# measurers\<newline>''] @ ?com)"
    by blast
  have "writeADESHeader oc s td ta tdet (ArgList []) (ArgList ms) on si tn c =
      Inr (?pre @ [''! detector CCD\<newline>'', ''# observers\<newline>'', ''# measurers\<newline>''] @
           (?names ms @ ?com))"
    by (simp add: writeADESHeader_lists comp_def split: option.splits)
  then show "\<exists>pre post. writeADESHeader oc s td ta tdet (ArgList []) (ArgList ms) on si tn c =
      Inr (pre @ [''! detector CCD\<newline>'', ''# observers\<newline>'', ''# measurers\<newline>''] @ post)"
    by blast
  have "writeADESHeader oc s td ta tdet (ArgList os) (ArgList []) on si tn c =
      Inr ((?pre @ [''! detector CCD\<newline>'', ''# observers\<newline>''] @ ?names os) @
           [''# measurers\<newline>''] @ ?com)"
    by (simp add: writeADESHeader_lists comp_def split: option.splits)
  then show "\<exists>pre. writeADESHeader oc s td ta tdet (ArgList os) (ArgList []) on si tn c =
      Inr (pre @ [''# measurers\<newline>''] @ ?com)"
    by blast
qed

section \<open>Properties of the table exporter\<close>

subsection \<open>The assembled columns\<close>

lemma in_columns_iff: "k \<in> set (columns observations) \<longleftrightarrow> map_of observations k \<noteq> None"
  by (simp add: columns_def map_of_eq_None_iff)

lemma and_then_Inr: "and_then r f = Inr y \<longleftrightarrow> (\<exists>x. r = Inr x \<and> f x = Inr y)"
  by (cases r) (simp_all add: and_then_def)

lemma keys_update_fresh:
  "k \<notin> set (map fst al) \<Longrightarrow> map fst (AList.update k v al) = map fst al @ [k]"
  by (simp add: update_keys)

lemma copy_required_keys:
  "copy_required observations k ades = Inr ades' \<Longrightarrow> k \<notin> set (map fst ades) \<Longrightarrow>
   map fst ades' = map fst ades @ [k]"
  by (auto simp: copy_required_def keys_update_fresh split: option.splits)

lemma copy_if_present_keys:
  "k \<notin> set (map fst ades) \<Longrightarrow>
   map fst (copy_if_present observations k ades) =
     map fst ades @ filter (\<lambda>k. k \<in> set (columns observations)) [k]"
  by (auto simp: copy_if_present_def keys_update_fresh in_columns_iff split: option.splits)

lemma assemble_ades_ids:
  "assemble_ades isot observations mjd_scale seconds_precision =
    (let ades = copy_if_present observations ''permID'' [];
         ades = copy_if_present observations ''provID'' ades;
         ades = copy_if_present observations ''trkSub'' ades
     in if map_of observations ''permID'' = None \<and> map_of observations ''provID'' = None \<and>
           map_of observations ''trkSub'' = None then
          Inl (ValueError
            ''At least one of permID, provID, or trkSub should\<newline>be present in observations.'')
        else
          (case map_of observations ''mjd'' of
             None \<Rightarrow> Inl (KeyError ''mjd'')
           | Some mjd \<Rightarrow>
          and_then (isot mjd mjd_scale seconds_precision) (\<lambda>observation_times.
          let ades = AList.update ''obsTime''
                       (Strings (map (\<lambda>i. i @ ''Z'') observation_times)) ades in
          and_then (copy_required observations ''ra'' ades) (\<lambda>ades.
          and_then (copy_required observations ''dec'' ades) (\<lambda>ades.
          let ades = copy_if_present observations ''rmsRA'' ades;
              ades = copy_if_present observations ''rmsDec'' ades in
          and_then (copy_required observations ''mag'' ades) (\<lambda>ades.
          let ades = copy_if_present observations ''rmsMag'' ades in
          and_then (copy_required observations ''band'' ades) (\<lambda>ades.
          and_then (copy_required observations ''stn'' ades) (\<lambda>ades.
          and_then (copy_required observations ''mode'' ades) (\<lambda>ades.
          and_then (copy_required observations ''astCat'' ades) (\<lambda>ades.
          let ades = copy_if_present observations ''remarks'' ades in
          Inr ades))))))))))"
  unfolding assemble_ades_def copy_if_present_def Let_def
  by (cases "map_of observations ''permID''"; cases "map_of observations ''provID''";
      cases "map_of observations ''trkSub''") (simp_all only: option.case prod.case simp_thms if_True if_False option.distinct)

text \<open>The statements a successful assembly has gone through, one fact each.\<close>

lemma assemble_ades_steps:
  assumes "assemble_ades isot observations mjd_scale seconds_precision = Inr ades"
  shows "\<exists>mjd times b1 b2 b3 b4 b5 b6 b7.
    map_of observations ''mjd'' = Some mjd \<and>
    isot mjd mjd_scale seconds_precision = Inr times \<and>
    copy_required observations ''ra''
           (AList.update ''obsTime'' (Strings (map (\<lambda>i. i @ ''Z'') times))
             (copy_if_present observations ''trkSub'' (copy_if_present observations ''provID''
               (copy_if_present observations ''permID'' [])))) = Inr b1
    \<and> copy_required observations ''dec'' b1 = Inr b2
    \<and> copy_required observations ''mag''
           (copy_if_present observations ''rmsDec'' (copy_if_present observations ''rmsRA'' b2)) = Inr b3
    \<and> copy_required observations ''band'' (copy_if_present observations ''rmsMag'' b3) = Inr b4
    \<and> copy_required observations ''stn'' b4 = Inr b5
    \<and> copy_required observations ''mode'' b5 = Inr b6
    \<and> copy_required observations ''astCat'' b6 = Inr b7
    \<and> ades = copy_if_present observations ''remarks'' b7"
proof (cases "map_of observations ''mjd''")
  case None
  with assms show ?thesis
    by (simp add: assemble_ades_ids Let_def split: if_splits)
next
  case (Some mjd)
  with assms show ?thesis
    by (simp add: assemble_ades_ids Let_def and_then_Inr split: if_splits) blast
qed

lemma filter_Cons_append: "filter P (x # y # ys) = filter P [x] @ filter P (y # ys)"
  by simp

lemma assemble_ades_keys:
  assumes "assemble_ades isot observations mjd_scale seconds_precision = Inr ades"
  shows "map fst ades = spec_column_order (columns observations)"
proof -
  let ?P = "\<lambda>k. k \<in> set (columns observations)"
  define a1 where "a1 = copy_if_present observations ''permID'' []"
  define a2 where "a2 = copy_if_present observations ''provID'' a1"
  define a3 where "a3 = copy_if_present observations ''trkSub'' a2"
  have k1: "map fst a1 = filter ?P [''permID'']"
    unfolding a1_def by (subst copy_if_present_keys) simp_all
  have k2: "map fst a2 = map fst a1 @ filter ?P [''provID'']"
    unfolding a2_def by (rule copy_if_present_keys) (simp add: k1 del: filter.simps)
  have k3: "map fst a3 = map fst a2 @ filter ?P [''trkSub'']"
    unfolding a3_def by (rule copy_if_present_keys) (simp add: k1 k2 del: filter.simps)
  from assemble_ades_steps [OF assms] obtain mjd times b1 b2 b3 b4 b5 b6 b7 where
    r1: "copy_required observations ''ra''
           (AList.update ''obsTime'' (Strings (map (\<lambda>i. i @ ''Z'') times)) a3) = Inr b1"
    and r2: "copy_required observations ''dec'' b1 = Inr b2"
    and r3: "copy_required observations ''mag''
           (copy_if_present observations ''rmsDec'' (copy_if_present observations ''rmsRA'' b2)) = Inr b3"
    and r4: "copy_required observations ''band'' (copy_if_present observations ''rmsMag'' b3) = Inr b4"
    and r5: "copy_required observations ''stn'' b4 = Inr b5"
    and r6: "copy_required observations ''mode'' b5 = Inr b6"
    and r7: "copy_required observations ''astCat'' b6 = Inr b7"
    and res: "ades = copy_if_present observations ''remarks'' b7"
    unfolding a1_def a2_def a3_def by blast
  define t where "t = AList.update ''obsTime'' (Strings (map (\<lambda>i. i @ ''Z'') times)) a3"
  define c1 where "c1 = copy_if_present observations ''rmsRA'' b2"
  define c2 where "c2 = copy_if_present observations ''rmsDec'' c1"
  define c3 where "c3 = copy_if_present observations ''rmsMag'' b3"
  have kt: "map fst t = map fst a3 @ [''obsTime'']"
    unfolding t_def by (rule keys_update_fresh) (simp add: k1 k2 k3 del: filter.simps)
  have kb1: "map fst b1 = map fst t @ [''ra'']"
    using r1 unfolding t_def [symmetric] by (rule copy_required_keys) (simp add: k1 k2 k3 kt del: filter.simps)
  have kb2: "map fst b2 = map fst b1 @ [''dec'']"
    using r2 by (rule copy_required_keys) (simp add: k1 k2 k3 kt kb1 del: filter.simps)
  have kc1: "map fst c1 = map fst b2 @ filter ?P [''rmsRA'']"
    unfolding c1_def by (rule copy_if_present_keys) (simp add: k1 k2 k3 kt kb1 kb2 del: filter.simps)
  have kc2: "map fst c2 = map fst c1 @ filter ?P [''rmsDec'']"
    unfolding c2_def by (rule copy_if_present_keys) (simp add: k1 k2 k3 kt kb1 kb2 kc1 del: filter.simps)
  have kb3: "map fst b3 = map fst c2 @ [''mag'']"
    using r3 unfolding c1_def [symmetric] c2_def [symmetric]
    by (rule copy_required_keys) (simp add: k1 k2 k3 kt kb1 kb2 kc1 kc2 del: filter.simps)
  have kc3: "map fst c3 = map fst b3 @ filter ?P [''rmsMag'']"
    unfolding c3_def by (rule copy_if_present_keys) (simp add: k1 k2 k3 kt kb1 kb2 kc1 kc2 kb3 del: filter.simps)
  have kb4: "map fst b4 = map fst c3 @ [''band'']"
    using r4 unfolding c3_def [symmetric]
    by (rule copy_required_keys) (simp add: k1 k2 k3 kt kb1 kb2 kc1 kc2 kb3 kc3 del: filter.simps)
  have kb5: "map fst b5 = map fst b4 @ [''stn'']"
    using r5 by (rule copy_required_keys) (simp add: k1 k2 k3 kt kb1 kb2 kc1 kc2 kb3 kc3 kb4 del: filter.simps)
  have kb6: "map fst b6 = map fst b5 @ [''mode'']"
    using r6 by (rule copy_required_keys) (simp add: k1 k2 k3 kt kb1 kb2 kc1 kc2 kb3 kc3 kb4 kb5 del: filter.simps)
  have kb7: "map fst b7 = map fst b6 @ [''astCat'']"
    using r7 by (rule copy_required_keys)
      (simp add: k1 k2 k3 kt kb1 kb2 kc1 kc2 kb3 kc3 kb4 kb5 kb6 del: filter.simps)
  have kr: "map fst ades = map fst b7 @ filter ?P [''remarks'']"
    unfolding res by (rule copy_if_present_keys)
      (simp add: k1 k2 k3 kt kb1 kb2 kc1 kc2 kb3 kc3 kb4 kb5 kb6 kb7 del: filter.simps)
  show ?thesis
    unfolding spec_column_order_def kr kb7 kb6 kb5 kb4 kc3 kb3 kc2 kc1 kb2 kb1 kt k3 k2 k1
    by (simp only: filter_Cons_append append_assoc append.simps)
qed






text \<open>
  The column \<open>obsTime\<close> of the assembled frame is the list of strings the time
  conversion returned for the column \<open>mjd\<close>, each with the letter \<open>Z\<close> appended; no later
  statement overwrites it.
\<close>

lemma map_of_copy_if_present_other:
  "k \<noteq> k' \<Longrightarrow> map_of (copy_if_present observations k ades) k' = map_of ades k'"
  by (simp add: copy_if_present_def update_conv' split: option.splits)

lemma map_of_copy_required_other:
  "copy_required observations k ades = Inr ades' \<Longrightarrow> k \<noteq> k' \<Longrightarrow>
   map_of ades' k' = map_of ades k'"
  by (auto simp: copy_required_def update_conv' split: option.splits)

lemma assemble_ades_obsTime:
  assumes "assemble_ades isot observations mjd_scale seconds_precision = Inr ades"
  shows "\<exists>mjd observation_times.
     map_of observations ''mjd'' = Some mjd \<and>
     isot mjd mjd_scale seconds_precision = Inr observation_times \<and>
     map_of ades ''obsTime'' = Some (Strings (map (\<lambda>i. i @ ''Z'') observation_times))"
proof -
  from assemble_ades_steps [OF assms] obtain mjd times b1 b2 b3 b4 b5 b6 b7 where
    m: "map_of observations ''mjd'' = Some mjd"
    and t: "isot mjd mjd_scale seconds_precision = Inr times"
    and r1: "copy_required observations ''ra''
           (AList.update ''obsTime'' (Strings (map (\<lambda>i. i @ ''Z'') times))
             (copy_if_present observations ''trkSub'' (copy_if_present observations ''provID''
               (copy_if_present observations ''permID'' [])))) = Inr b1"
    and r2: "copy_required observations ''dec'' b1 = Inr b2"
    and r3: "copy_required observations ''mag''
           (copy_if_present observations ''rmsDec'' (copy_if_present observations ''rmsRA'' b2)) = Inr b3"
    and r4: "copy_required observations ''band'' (copy_if_present observations ''rmsMag'' b3) = Inr b4"
    and r5: "copy_required observations ''stn'' b4 = Inr b5"
    and r6: "copy_required observations ''mode'' b5 = Inr b6"
    and r7: "copy_required observations ''astCat'' b6 = Inr b7"
    and res: "ades = copy_if_present observations ''remarks'' b7"
    by blast
  let ?S = "Some (Strings (map (\<lambda>i. i @ ''Z'') times))"
  note o = map_of_copy_required_other map_of_copy_if_present_other
  have "map_of b1 ''obsTime'' = ?S"
    by (simp add: o(1) [OF r1] update_conv')
  then have "map_of b2 ''obsTime'' = ?S" by (simp add: o(1) [OF r2])
  then have "map_of b3 ''obsTime'' = ?S" by (simp add: o(1) [OF r3] o(2))
  then have "map_of b4 ''obsTime'' = ?S" by (simp add: o(1) [OF r4] o(2))
  then have "map_of b5 ''obsTime'' = ?S" by (simp add: o(1) [OF r5])
  then have "map_of b6 ''obsTime'' = ?S" by (simp add: o(1) [OF r6])
  then have "map_of b7 ''obsTime'' = ?S" by (simp add: o(1) [OF r7])
  then have "map_of ades ''obsTime'' = ?S" by (simp add: res o(2))
  with m t show ?thesis by blast
qed

subsection \<open>The written file\<close>

lemma file_written:
  "file_append (file_append (file_append (open_w fs p) p a) p b) p c = fs(p \<mapsto> a @ b @ c)"
  by (simp add: open_w_def file_append_def)

lemma writeToADES_success:
  assumes "writeToADES isot to_csv fs observations file_out mjd_scale seconds_precision
     oc s td ta tdet observers measurers comment = (Inr (), fs')"
  shows "\<exists>header ades.
     writeADESHeader oc s td ta tdet observers measurers None None None comment = Inr header \<and>
     assemble_ades isot observations mjd_scale seconds_precision = Inr ades \<and>
     fs' = fs(file_out \<mapsto> concat header @ (join ''|'' (map fst ades) @ ''\<newline>'') @ to_csv ades)"
  using assms
  by (auto simp add: writeToADES_def Let_def file_written split: sum.splits)

lemma assemble_ades_no_identifier:
  assumes "''permID'' \<notin> set (columns observations)"
    and "''provID'' \<notin> set (columns observations)"
    and "''trkSub'' \<notin> set (columns observations)"
  shows "assemble_ades isot observations mjd_scale seconds_precision =
     Inl (ValueError
       ''At least one of permID, provID, or trkSub should\<newline>be present in observations.'')"
  using assms by (simp add: assemble_ades_ids in_columns_iff Let_def)

text \<open>
  C1. When the table has none of the columns permID, provID, trkSub, the call raises and the
  file system after the call is the one before it: no file is created or modified. The
  header is built first, so with valid metadata (\<open>observers\<close> and \<open>measurers\<close> are lists)
  the exception is the \<open>ValueError\<close> of the identification check; with an argument that
  is not a list it is the header builder's, raised earlier still.
\<close>

theorem writeToADES_no_identifier:
  assumes "''permID'' \<notin> set (columns observations)"
    and "''provID'' \<notin> set (columns observations)"
    and "''trkSub'' \<notin> set (columns observations)"
  shows "(\<exists>e. writeToADES isot to_csv fs observations file_out mjd_scale seconds_precision
            oc s td ta tdet observers measurers comment = (Inl e, fs)) \<and>
         (type_is_list observers \<and> type_is_list measurers \<longrightarrow>
          writeToADES isot to_csv fs observations file_out mjd_scale seconds_precision
            oc s td ta tdet observers measurers comment =
          (Inl (ValueError
             ''At least one of permID, provID, or trkSub should\<newline>be present in observations.''),
           fs))"
proof -
  note a = assemble_ades_no_identifier [OF assms, of isot mjd_scale seconds_precision]
  show ?thesis
  proof (cases "writeADESHeader oc s td ta tdet observers measurers None None None comment")
    case (Inl e)
    then have "\<not> (type_is_list observers \<and> type_is_list measurers)"
      using writeADESHeader_lists [of oc s td ta tdet _ _ None None None comment]
      by (cases observers; cases measurers) auto
    with Inl show ?thesis by (auto simp: writeToADES_def)
  next
    case (Inr header)
    with a show ?thesis by (simp add: writeToADES_def)
  qed
qed

theorem writeToADES_no_identifier_witness:
  "''permID'' \<notin> set (columns [(''mjd'', [''59000.5'']), (''ra'', [''10.0''])]) \<and>
   ''provID'' \<notin> set (columns [(''mjd'', [''59000.5'']), (''ra'', [''10.0''])]) \<and>
   ''trkSub'' \<notin> set (columns [(''mjd'', [''59000.5'']), (''ra'', [''10.0''])]) \<and>
   writeToADES (\<lambda>mjd scale precision. Inr [''2020-05-31T12:00:00.000000000''])
     (\<lambda>ades. ''rows'') [''out.psv'' \<mapsto> ''old content'']
     [(''mjd'', [''59000.5'']), (''ra'', [''10.0''])] ''out.psv'' ''utc'' 9
     ''I11'' ''D. iRAC'' ''Reflector'' ''8.4'' ''CCD''
     (ArgList [PyStr ''J. Smith'']) (ArgList [PyStr ''J. Smith'']) None =
   (Inl (ValueError
      ''At least one of permID, provID, or trkSub should\<newline>be present in observations.''),
    [''out.psv'' \<mapsto> ''old content''])"
  using writeToADES_no_identifier [of "[(''mjd'', [''59000.5'']), (''ra'', [''10.0''])]"
      "\<lambda>mjd scale precision. Inr [''2020-05-31T12:00:00.000000000'']" "\<lambda>ades. ''rows''"
      "[''out.psv'' \<mapsto> ''old content'']" "''out.psv''" "''utc''" 9
      "''I11''" "''D. iRAC''" "''Reflector''" "''8.4''" "''CCD''"
      "ArgList [PyStr ''J. Smith'']" "ArgList [PyStr ''J. Smith'']" None]
  by (simp add: columns_def)




subsection \<open>The header as lines of the file\<close>

lemma no_line_break_simps:
  "no_line_break []"
  "no_line_break (c # cs) \<longleftrightarrow> c \<noteq> CHR ''\<newline>'' \<and> no_line_break cs"
  "no_line_break (a @ b) \<longleftrightarrow> no_line_break a \<and> no_line_break b"
  by (auto simp: no_line_break_def)

lemma lines_of_line:
  "no_line_break l \<Longrightarrow> lines_of (l @ ''\<newline>'' @ rest) = l # lines_of rest"
  by (induction l) (simp_all add: no_line_break_simps)

lemma lines_of_terminated:
  "\<forall>h \<in> set hs. no_line_break h \<Longrightarrow>
   lines_of (concat (map (\<lambda>i. i @ ''\<newline>'') hs) @ rest) = hs @ lines_of rest"
proof (induction hs)
  case Nil
  then show ?case by simp
next
  case (Cons h hs)
  then have "lines_of (h @ ''\<newline>'' @ (concat (map (\<lambda>i. i @ ''\<newline>'') hs) @ rest)) =
      h # lines_of (concat (map (\<lambda>i. i @ ''\<newline>'') hs) @ rest)"
    by (intro lines_of_line) simp
  with Cons show ?case by simp
qed

lemma no_line_break_join:
  "no_line_break sep \<Longrightarrow> \<forall>x \<in> set xs. no_line_break x \<Longrightarrow> no_line_break (join sep xs)"
  by (induction sep xs rule: join.induct) (simp_all add: no_line_break_simps)

lemma no_line_break_column_names:
  "\<forall>k \<in> set (spec_column_order cols). no_line_break k"
  unfolding spec_column_order_def set_append set_filter
  by (auto simp: no_line_break_simps)

text \<open>
  C10, as stated: a file written by the exporter never contains an observatory name line,
  a submitter institution line or a telescope name line. The metadata strings are written
  as they are; with the submitter \<open>A. Jones\<close>, a line feed and \<open>! institution IfA\<close>, the
  call succeeds and the sixth line of the file is \<open>! institution IfA\<close>, in the submitter
  section.
\<close>

theorem writeToADES_institution_line_injected:
  "fst (writeToADES (\<lambda>mjd scale precision. Inr [''2020-05-31T12:00:00.000000000''])
       (\<lambda>ades. ''A1B2C3|2020-05-31T12:00:00.000000000Z\<newline>'') Map.empty
       [(''trkSub'', [''A1B2C3'']), (''mjd'', [''59000.5'']), (''ra'', [''10.0'']),
        (''dec'', [''-5.0'']), (''mag'', [''20.1'']), (''band'', [''g'']), (''stn'', [''F51'']),
        (''mode'', [''CCD'']), (''astCat'', [''Gaia2''])]
       ''out.psv'' ''utc'' 9 ''I11'' ''A. Jones\<newline>! institution IfA'' ''Reflector'' ''8.4'' ''CCD''
       (ArgList [PyStr ''J. Smith'']) (ArgList [PyStr ''J. Smith'']) None) = Inr () \<and>
   map_option lines_of
     (snd (writeToADES (\<lambda>mjd scale precision. Inr [''2020-05-31T12:00:00.000000000''])
       (\<lambda>ades. ''A1B2C3|2020-05-31T12:00:00.000000000Z\<newline>'') Map.empty
       [(''trkSub'', [''A1B2C3'']), (''mjd'', [''59000.5'']), (''ra'', [''10.0'']),
        (''dec'', [''-5.0'']), (''mag'', [''20.1'']), (''band'', [''g'']), (''stn'', [''F51'']),
        (''mode'', [''CCD'']), (''astCat'', [''Gaia2''])]
       ''out.psv'' ''utc'' 9 ''I11'' ''A. Jones\<newline>! institution IfA'' ''Reflector'' ''8.4'' ''CCD''
       (ArgList [PyStr ''J. Smith'']) (ArgList [PyStr ''J. Smith'']) None) ''out.psv'') =
   Some [''# version=2017'', ''# observatory'', ''! mpcCode I11'',
         ''# submitter'', ''! name A. Jones'', ''! institution IfA'',
         ''# telescope'', ''! aperture 8.4'', ''! design Reflector'', ''! detector CCD'',
         ''# observers'', ''! name J. Smith'', ''# measurers'', ''! name J. Smith'',
         ''trkSub|obsTime|ra|dec|mag|band|stn|mode|astCat'',
         ''A1B2C3|2020-05-31T12:00:00.000000000Z'']"
proof -
  let ?obs = "[(''trkSub'', [''A1B2C3'']), (''mjd'', [''59000.5'']), (''ra'', [''10.0'']),
        (''dec'', [''-5.0'']), (''mag'', [''20.1'']), (''band'', [''g'']), (''stn'', [''F51'']),
        (''mode'', [''CCD'']), (''astCat'', [''Gaia2''])]"
  let ?isot = "\<lambda>(mjd :: string list) (scale :: string) (precision :: int).
                 Inr [''2020-05-31T12:00:00.000000000''] :: error + string list"
  have a: "assemble_ades ?isot ?obs ''utc'' 9 =
     Inr [(''trkSub'', Values [''A1B2C3'']),
          (''obsTime'', Strings [''2020-05-31T12:00:00.000000000Z'']),
          (''ra'', Values [''10.0'']), (''dec'', Values [''-5.0'']),
          (''mag'', Values [''20.1'']), (''band'', Values [''g'']), (''stn'', Values [''F51'']),
          (''mode'', Values [''CCD'']), (''astCat'', Values [''Gaia2''])]"
    by (simp add: assemble_ades_def and_then_def copy_required_def copy_if_present_def)
  show ?thesis
    by (simp add: writeToADES_def writeADESHeader_def a Let_def open_w_def file_append_def)
qed

text \<open>
  C10, amended: when none of the metadata strings the exporter forwards (the observatory
  code, the submitter, the telescope design, every observer and measurer name as formatted,
  and the comment) contains a line feed, the lines of a file it writes are the header
  lines below, then the column-name line, then the lines of the rows. The observatory
  section is the marker and the mpcCode line, the submitter section the marker and the
  name line, the telescope section starts with the aperture line: the header has no
  observatory or telescope name line and no institution line, since the exporter calls the
  header builder with \<open>observatory_name\<close>, \<open>submitter_institution\<close> and
  \<open>telescope_name\<close> at \<open>None\<close>. A call that returns has lists for observers and
  measurers, so the statement is about every written file.
\<close>

theorem writeToADES_header_file_lines:
  assumes run: "writeToADES isot to_csv fs observations file_out mjd_scale seconds_precision
       oc s td ta tdet (ArgList os) (ArgList ms) comment = (Inr (), fs')"
    and oc: "no_line_break oc" and s: "no_line_break s" and td: "no_line_break td"
    and os: "\<forall>name \<in> set os. no_line_break (py_format name)"
    and ms: "\<forall>name \<in> set ms. no_line_break (py_format name)"
    and c: "\<forall>line. comment = Some line \<longrightarrow> no_line_break line"
  shows "\<exists>content header ades.
     fs' file_out = Some content \<and>
     assemble_ades isot observations mjd_scale seconds_precision = Inr ades \<and>
     header =
       [''# version=2017'',
        ''# observatory'', ''! mpcCode '' @ oc,
        ''# submitter'', ''! name '' @ s,
        ''# telescope'', ''! aperture 8.4'', ''! design '' @ td, ''! detector CCD'',
        ''# observers''] @
        map (\<lambda>name. ''! name '' @ py_format name) os @
       [''# measurers''] @
        map (\<lambda>name. ''! name '' @ py_format name) ms @
       (case comment of None \<Rightarrow> [] | Some line \<Rightarrow> [''# comment'', ''! line '' @ line]) \<and>
     lines_of content =
       header @ [join ''|'' (spec_column_order (columns observations))] @ lines_of (to_csv ades) \<and>
     (\<forall>l \<in> set header. take 14 l \<noteq> ''! institution '')"
proof -
  let ?nl = "\<lambda>i. i @ ''\<newline>''"
  let ?H = "[''# version=2017'',
        ''# observatory'', ''! mpcCode '' @ oc,
        ''# submitter'', ''! name '' @ s,
        ''# telescope'', ''! aperture 8.4'', ''! design '' @ td, ''! detector CCD'',
        ''# observers''] @
        map (\<lambda>name. ''! name '' @ py_format name) os @
       [''# measurers''] @
        map (\<lambda>name. ''! name '' @ py_format name) ms @
       (case comment of None \<Rightarrow> [] | Some line \<Rightarrow> [''# comment'', ''! line '' @ line])"
  let ?cols = "join ''|'' (spec_column_order (columns observations))"
  from writeToADES_success [OF run] obtain header ades where
    h: "writeADESHeader oc s td ta tdet (ArgList os) (ArgList ms) None None None comment = Inr header"
    and a: "assemble_ades isot observations mjd_scale seconds_precision = Inr ades"
    and f: "fs' = fs(file_out \<mapsto> concat header @ (join ''|'' (map fst ades) @ ''\<newline>'') @ to_csv ades)"
    by blast
  have hl: "header = map ?nl ?H"
    using h by (simp add: writeADESHeader_lists)
  have free: "\<forall>l \<in> set ?H. no_line_break l"
    using oc s td os ms c by (auto simp: no_line_break_simps split: option.splits)
  have cols: "no_line_break ?cols"
    by (rule no_line_break_join) (simp_all add: no_line_break_simps no_line_break_column_names)
  have "lines_of (concat (map ?nl ?H) @ (?cols @ ''\<newline>'' @ to_csv ades)) =
      ?H @ lines_of (?cols @ ''\<newline>'' @ to_csv ades)"
    using free by (rule lines_of_terminated)
  also have "lines_of (?cols @ ''\<newline>'' @ to_csv ades) = ?cols # lines_of (to_csv ades)"
    using cols by (rule lines_of_line)
  finally have l: "lines_of (concat (map ?nl ?H) @ (?cols @ ''\<newline>'' @ to_csv ades)) =
      ?H @ [?cols] @ lines_of (to_csv ades)"
    by simp
  have t: "fs' file_out = Some (concat (map ?nl ?H) @ (?cols @ ''\<newline>'' @ to_csv ades))"
    unfolding f hl assemble_ades_keys [OF a] by simp
  have i: "\<forall>l \<in> set ?H. take 14 l \<noteq> ''! institution ''"
    by (auto split: option.splits)
  from t a l i show ?thesis by blast
qed

theorem writeToADES_header_file_lines_witness:
  "\<exists>fs' content.
     writeToADES (\<lambda>mjd scale precision. Inr [''2020-05-31T12:00:00.000''])
       (\<lambda>ades. ''1234|2020-05-31T12:00:00.000Z\<newline>'') Map.empty
       [(''permID'', [''1234'']), (''mjd'', [''59000.5'']), (''ra'', [''10.0'']),
        (''dec'', [''-5.0'']), (''mag'', [''20.1'']), (''band'', [''g'']), (''stn'', [''F51'']),
        (''mode'', [''CCD'']), (''astCat'', [''Gaia2'']), (''remarks'', [''faint''])]
       ''ades.psv'' ''tai'' 3 ''F51'' ''A. Jones'' ''Reflector'' ''1.8'' ''CCD''
       (ArgList [PyStr ''A. Jones'']) (ArgList []) (Some ''test field'') = (Inr (), fs') \<and>
     no_line_break ''F51'' \<and> no_line_break ''A. Jones'' \<and> no_line_break ''Reflector'' \<and>
     no_line_break ''test field'' \<and>
     fs' ''ades.psv'' = Some content \<and>
     lines_of content =
       [''# version=2017'',
        ''# observatory'', ''! mpcCode F51'',
        ''# submitter'', ''! name A. Jones'',
        ''# telescope'', ''! aperture 8.4'', ''! design Reflector'', ''! detector CCD'',
        ''# observers'', ''! name A. Jones'',
        ''# measurers'',
        ''# comment'', ''! line test field'',
        ''permID|obsTime|ra|dec|mag|band|stn|mode|astCat|remarks'',
        ''1234|2020-05-31T12:00:00.000Z'']"
proof -
  let ?obs = "[(''permID'', [''1234'']), (''mjd'', [''59000.5'']), (''ra'', [''10.0'']),
        (''dec'', [''-5.0'']), (''mag'', [''20.1'']), (''band'', [''g'']), (''stn'', [''F51'']),
        (''mode'', [''CCD'']), (''astCat'', [''Gaia2'']), (''remarks'', [''faint''])]"
  let ?isot = "\<lambda>(mjd :: string list) (scale :: string) (precision :: int).
                 Inr [''2020-05-31T12:00:00.000''] :: error + string list"
  let ?csv = "\<lambda>ades :: string frame. ''1234|2020-05-31T12:00:00.000Z\<newline>''"
  have a: "assemble_ades ?isot ?obs ''tai'' 3 =
     Inr [(''permID'', Values [''1234'']),
          (''obsTime'', Strings [''2020-05-31T12:00:00.000Z'']),
          (''ra'', Values [''10.0'']), (''dec'', Values [''-5.0'']),
          (''mag'', Values [''20.1'']), (''band'', Values [''g'']), (''stn'', Values [''F51'']),
          (''mode'', Values [''CCD'']), (''astCat'', Values [''Gaia2'']),
          (''remarks'', Values [''faint''])]"
    by (simp add: assemble_ades_def and_then_def copy_required_def copy_if_present_def)
  have "\<exists>fs'. writeToADES ?isot ?csv Map.empty ?obs ''ades.psv'' ''tai'' 3
       ''F51'' ''A. Jones'' ''Reflector'' ''1.8'' ''CCD''
       (ArgList [PyStr ''A. Jones'']) (ArgList []) (Some ''test field'') = (Inr (), fs')"
    by (simp add: writeToADES_def writeADESHeader_lists a Let_def)
  then obtain fs' where run: "writeToADES ?isot ?csv Map.empty ?obs ''ades.psv'' ''tai'' 3
       ''F51'' ''A. Jones'' ''Reflector'' ''1.8'' ''CCD''
       (ArgList [PyStr ''A. Jones'']) (ArgList []) (Some ''test field'') = (Inr (), fs')"
    by blast
  have n: "no_line_break ''F51''" "no_line_break ''A. Jones''" "no_line_break ''Reflector''"
    "no_line_break ''test field''"
    by (simp_all add: no_line_break_def)
  have os: "\<forall>name \<in> set [PyStr ''A. Jones'']. no_line_break (py_format name)"
    and ms: "\<forall>name \<in> set ([] :: pyatom list). no_line_break (py_format name)"
    and c: "\<forall>line. Some ''test field'' = Some line \<longrightarrow> no_line_break line"
    by (simp_all add: no_line_break_def)
  have o: "join ''|'' (spec_column_order (columns ?obs)) =
     ''permID|obsTime|ra|dec|mag|band|stn|mode|astCat|remarks''"
    by (simp add: spec_column_order_def columns_def)
  from writeToADES_header_file_lines [OF run n(1) n(2) n(3) os ms c]
  obtain content and header :: "string list" and ades :: "string frame" where
    t: "fs' ''ades.psv'' = Some content"
    and h: "header =
       [''# version=2017'',
        ''# observatory'', ''! mpcCode '' @ ''F51'',
        ''# submitter'', ''! name '' @ ''A. Jones'',
        ''# telescope'', ''! aperture 8.4'', ''! design '' @ ''Reflector'', ''! detector CCD'',
        ''# observers''] @
        map (\<lambda>name. ''! name '' @ py_format name) [PyStr ''A. Jones''] @
       [''# measurers''] @
        map (\<lambda>name. ''! name '' @ py_format name) [] @
       (case Some ''test field'' of None \<Rightarrow> []
        | Some line \<Rightarrow> [''# comment'', ''! line '' @ line])"
    and l: "lines_of content =
       header @ [join ''|'' (spec_column_order (columns ?obs))] @
       lines_of ''1234|2020-05-31T12:00:00.000Z\<newline>''"
    by blast
  have "lines_of content =
       [''# version=2017'',
        ''# observatory'', ''! mpcCode F51'',
        ''# submitter'', ''! name A. Jones'',
        ''# telescope'', ''! aperture 8.4'', ''! design Reflector'', ''! detector CCD'',
        ''# observers'', ''! name A. Jones'',
        ''# measurers'',
        ''# comment'', ''! line test field'',
        ''permID|obsTime|ra|dec|mag|band|stn|mode|astCat|remarks'',
        ''1234|2020-05-31T12:00:00.000Z'']"
    unfolding l h o by simp
  with run n t show ?thesis by (intro exI [of _ fs'] exI [of _ content]) simp
qed

end
